theory Spec2Isabelle
  imports Complex_Main
begin

section \<open>Errors\<close>

text \<open>
  The Python raises exceptions of its own (\<open>NameError\<close>, \<open>UnboundLocalError\<close>,
  \<open>IndexError\<close>), and an Earth Engine expression that cannot be evaluated (a band that
  is not there, a \<open>null\<close> image argument, a \<open>rename\<close> with the wrong number of
  names) fails as a whole when it is evaluated. Both are values of \<open>error\<close>; a
  computation that can fail returns \<open>error + 'a\<close>, with \<open>Inl\<close> the failure.
\<close>

datatype error =
    EEError string
  | IndexError
  | UnboundLocalError string
  | NameError string

fun bindE :: "error + 'a \<Rightarrow> ('a \<Rightarrow> error + 'b) \<Rightarrow> error + 'b" where
  "bindE (Inl e) f = Inl e"
| "bindE (Inr x) f = f x"

text \<open>\<open>mapE\<close> is a server-side \<open>map\<close>: it fails when one element's image fails.\<close>

fun mapE :: "('a \<Rightarrow> error + 'b) \<Rightarrow> 'a list \<Rightarrow> error + 'b list" where
  "mapE f [] = Inr []"
| "mapE f (x # xs) = bindE (f x) (\<lambda>y. bindE (mapE f xs) (\<lambda>ys. Inr (y # ys)))"

section \<open>Pixels\<close>

text \<open>
  Every raster operation the classifiers use is pixel-wise, so an image band is modelled
  at one pixel: \<open>None\<close> is a masked pixel, \<open>Some v\<close> a valid one holding \<open>v\<close>.
  Pixel values are real numbers (the float arithmetic of the engine is not modelled).
  A comparison yields 1 or 0 and is masked where an operand is masked.
\<close>

type_synonym px = "real option"

definition px_bool :: "bool \<Rightarrow> real" where
  "px_bool b = (if b then 1 else 0)"

fun px_lt :: "px \<Rightarrow> real \<Rightarrow> px" where
  "px_lt None c = None"
| "px_lt (Some x) c = Some (px_bool (x < c))"

fun px_gt :: "px \<Rightarrow> real \<Rightarrow> px" where
  "px_gt None c = None"
| "px_gt (Some x) c = Some (px_bool (x > c))"

fun px_lte :: "px \<Rightarrow> real \<Rightarrow> px" where
  "px_lte None c = None"
| "px_lte (Some x) c = Some (px_bool (x \<le> c))"

fun px_gte :: "px \<Rightarrow> real \<Rightarrow> px" where
  "px_gte None c = None"
| "px_gte (Some x) c = Some (px_bool (x \<ge> c))"

fun px_eq :: "px \<Rightarrow> real \<Rightarrow> px" where
  "px_eq None c = None"
| "px_eq (Some x) c = Some (px_bool (x = c))"

fun px_neq :: "px \<Rightarrow> real \<Rightarrow> px" where
  "px_neq None c = None"
| "px_neq (Some x) c = Some (px_bool (x \<noteq> c))"

text \<open>The same comparisons between two images.\<close>

fun px_lift2 :: "(real \<Rightarrow> real \<Rightarrow> real) \<Rightarrow> px \<Rightarrow> px \<Rightarrow> px" where
  "px_lift2 f (Some x) (Some y) = Some (f x y)"
| "px_lift2 f _ _ = None"

definition img_lte :: "px \<Rightarrow> px \<Rightarrow> px" where
  "img_lte = px_lift2 (\<lambda>x y. px_bool (x \<le> y))"

definition img_gt :: "px \<Rightarrow> px \<Rightarrow> px" where
  "img_gt = px_lift2 (\<lambda>x y. px_bool (x > y))"

definition img_eq :: "px \<Rightarrow> px \<Rightarrow> px" where
  "img_eq = px_lift2 (\<lambda>x y. px_bool (x = y))"

definition img_neq :: "px \<Rightarrow> px \<Rightarrow> px" where
  "img_neq = px_lift2 (\<lambda>x y. px_bool (x \<noteq> y))"

definition px_And :: "px \<Rightarrow> px \<Rightarrow> px" where
  "px_And = px_lift2 (\<lambda>x y. px_bool (x \<noteq> 0 \<and> y \<noteq> 0))"

text \<open>
  Arithmetic. The engine's \<open>divide\<close> returns 0 for a division by 0, which is also what
  \<open>x / 0\<close> is in HOL.
\<close>

definition px_add :: "px \<Rightarrow> px \<Rightarrow> px" where
  "px_add = px_lift2 (\<lambda>x y. x + y)"

definition px_subtract :: "px \<Rightarrow> px \<Rightarrow> px" where
  "px_subtract = px_lift2 (\<lambda>x y. x - y)"

definition px_multiply :: "px \<Rightarrow> px \<Rightarrow> px" where
  "px_multiply = px_lift2 (\<lambda>x y. x * y)"

definition px_divide :: "px \<Rightarrow> px \<Rightarrow> px" where
  "px_divide = px_lift2 (\<lambda>x y. x / y)"

definition px_abs :: "px \<Rightarrow> px" where
  "px_abs = map_option abs"

text \<open>
  \<open>input.where(test, value)\<close>: where the test is valid and not 0 and the pixel of
  \<open>value\<close> is valid, that pixel replaces the input's; elsewhere (the test 0 or
  masked, or the value masked) the input's pixel stays. A masked input stays masked.
\<close>

fun px_where :: "px \<Rightarrow> px \<Rightarrow> px \<Rightarrow> px" where
  "px_where None test v = None"
| "px_where (Some a) None v = Some a"
| "px_where (Some a) (Some t) None = Some a"
| "px_where (Some a) (Some t) (Some w) = (if t \<noteq> 0 then Some w else Some a)"

text \<open>\<open>uint8()\<close> casts to an unsigned byte: the value is truncated and clamped to 0..255.\<close>

definition px_uint8 :: "px \<Rightarrow> px" where
  "px_uint8 = map_option (\<lambda>x. real_of_int (max 0 (min 255 \<lfloor>x\<rfloor>)))"

section \<open>Classification chains of \<open>productivity.py\<close> and \<open>soil_organic_carbon.py\<close>\<close>

text \<open>
  The trajectory class of a z-score (\<open>productivity_trajectory\<close>, lines 36 to 41):
  \<^verbatim>\<open>ee.Image(0).where(z.lt(-1.96),1).where(z.gt(1.96),3)
       .where(z.gt(-1.96).And(z.lt(1.96)),2).uint8()\<close>
\<close>

definition trajectory_class :: "px \<Rightarrow> px" where
  "trajectory_class z_score =
     px_uint8
       (px_where
         (px_where
           (px_where (Some 0) (px_lt z_score (- 1.96)) (Some 1))
           (px_gt z_score 1.96) (Some 3))
         (px_And (px_gt z_score (- 1.96)) (px_lt z_score 1.96)) (Some 2))"

text \<open>
  The performance class of the ratio of the mean index to the zone's 90th percentile
  (\<open>productivity_performance\<close>, lines 118 to 126):
  \<^verbatim>\<open>observed_ratio = ndvi_mean.divide(ecoregion_perc90)
  ee.Image(0).where(observed_ratio.gte(0.5), 2).where(observed_ratio.lte(0.5), 1).uint8()\<close>
\<close>

definition performance_class :: "px \<Rightarrow> px" where
  "performance_class observed_ratio =
     px_uint8
       (px_where
         (px_where (Some 0) (px_gte observed_ratio 0.5) (Some 2))
         (px_lte observed_ratio 0.5) (Some 1))"

definition observed_ratio :: "px \<Rightarrow> px \<Rightarrow> px" where
  "observed_ratio ndvi_mean ecoregion_perc90 = px_divide ndvi_mean ecoregion_perc90"

text \<open>
  The class of the percent change of the carbon stock (\<open>soil_organic_carbon\<close>, lines
  169 to 176):
  \<^verbatim>\<open>ee.Image(0).where(c.gt(10), 3).where(c.lt(10).And(c.gt(-10)), 2)
       .where(c.lt(-10), 1).uint8()\<close>
\<close>

definition soc_class :: "px \<Rightarrow> px" where
  "soc_class soc_percent_change =
     px_uint8
       (px_where
         (px_where
           (px_where (Some 0) (px_gt soc_percent_change 10) (Some 3))
           (px_And (px_lt soc_percent_change 10) (px_gt soc_percent_change (- 10))) (Some 2))
         (px_lt soc_percent_change (- 10)) (Some 1))"

text \<open>\<open>soc_images.select(end).subtract(soc_images.select(0)).divide(soc_images.select(0)).multiply(100)\<close>\<close>

definition soc_percent_change :: "px \<Rightarrow> px \<Rightarrow> px" where
  "soc_percent_change stock_end stock_start =
     px_multiply (px_divide (px_subtract stock_end stock_start) stock_start) (Some 100)"

section \<open>Images and image collections\<close>

text \<open>
  An image is its list of named bands, seen at one pixel, and the two properties the
  scripts read: \<open>year\<close>, and \<open>system:time_start\<close> as the calendar year and month the
  calendar filters extract from it. An image collection is a list of images.
\<close>

record image =
  bands :: "(string \<times> px) list"
  prop_year :: "int option"
  prop_time_start :: "(int \<times> nat) option"

definition band_names :: "image \<Rightarrow> string list" where
  "band_names img = map fst (bands img)"

text \<open>The pixel of the first band (\<open>None\<close> for an image with no band).\<close>

definition band0 :: "image \<Rightarrow> px" where
  "band0 img = (case bands img of [] \<Rightarrow> None | b # _ \<Rightarrow> snd b)"

definition single_band :: "string \<Rightarrow> px \<Rightarrow> image" where
  "single_band name v = \<lparr>bands = [(name, v)], prop_year = None, prop_time_start = None\<rparr>"

text \<open>\<open>ee.Image.constant(c)\<close>: one band named \<open>constant\<close>, valid everywhere.\<close>

definition img_constant :: "real \<Rightarrow> image" where
  "img_constant c = single_band ''constant'' (Some c)"

text \<open>
  \<open>select\<close> keeps the named bands, in the order asked, and the properties; a name
  that matches no band is an error of the engine. On a collection it is applied to
  every image.
\<close>

fun select_bands :: "string list \<Rightarrow> (string \<times> px) list \<Rightarrow> error + (string \<times> px) list" where
  "select_bands [] bs = Inr []"
| "select_bands (n # ns) bs =
     (case map_of bs n of
        None \<Rightarrow> Inl (EEError ''Image.select: Pattern did not match any bands'')
      | Some v \<Rightarrow> bindE (select_bands ns bs) (\<lambda>rest. Inr ((n, v) # rest)))"

definition select_img :: "string list \<Rightarrow> image \<Rightarrow> error + image" where
  "select_img names img = bindE (select_bands names (bands img)) (\<lambda>bs. Inr (img\<lparr>bands := bs\<rparr>))"

definition select_coll :: "string list \<Rightarrow> image list \<Rightarrow> error + image list" where
  "select_coll names coll = mapE (select_img names) coll"

text \<open>\<open>rename\<close> needs as many names as the image has bands.\<close>

definition rename :: "string list \<Rightarrow> image \<Rightarrow> error + image" where
  "rename names img =
     (if length names = length (bands img)
      then Inr (img\<lparr>bands := zip names (map snd (bands img))\<rparr>)
      else Inl (EEError ''Image.rename: The number of names must match the number of bands''))"

definition addBands :: "image \<Rightarrow> image \<Rightarrow> image" where
  "addBands img src = img\<lparr>bands := bands img @ bands src\<rparr>"

definition set_year :: "int option \<Rightarrow> image \<Rightarrow> image" where
  "set_year y img = img\<lparr>prop_year := y\<rparr>"

text \<open>
  A binary operation between two images: a one-band right operand is used against every
  band of the left one, otherwise the bands are matched by position. The result carries
  the left operand's band names and properties.
\<close>

definition img_binop :: "(px \<Rightarrow> px \<Rightarrow> px) \<Rightarrow> image \<Rightarrow> image \<Rightarrow> image" where
  "img_binop f a b =
     a\<lparr>bands :=
        (if length (bands b) = 1 then map (\<lambda>(n, v). (n, f v (band0 b))) (bands a)
         else map (\<lambda>((n, v), (m, w)). (n, f v w)) (zip (bands a) (bands b)))\<rparr>"

definition img_unop :: "(px \<Rightarrow> px) \<Rightarrow> image \<Rightarrow> image" where
  "img_unop f a = a\<lparr>bands := map (\<lambda>(n, v). (n, f v)) (bands a)\<rparr>"

text \<open>\<open>float()\<close> changes the pixel type only; pixel values are reals here.\<close>

definition img_float :: "image \<Rightarrow> image" where
  "img_float img = img"

subsection \<open>Filters\<close>

definition filter_calendar_year :: "int \<Rightarrow> image list \<Rightarrow> image list" where
  "filter_calendar_year y coll =
     filter (\<lambda>i. case prop_time_start i of None \<Rightarrow> False | Some t \<Rightarrow> fst t = y) coll"

definition filter_calendar_month :: "nat \<Rightarrow> image list \<Rightarrow> image list" where
  "filter_calendar_month m coll =
     filter (\<lambda>i. case prop_time_start i of None \<Rightarrow> False | Some t \<Rightarrow> snd t = m) coll"

definition filter_year_eq :: "int \<Rightarrow> image list \<Rightarrow> image list" where
  "filter_year_eq y coll = filter (\<lambda>i. prop_year i = Some y) coll"

definition filter_year_range :: "int \<Rightarrow> int \<Rightarrow> image list \<Rightarrow> image list" where
  "filter_year_range lo hi coll =
     filter (\<lambda>i. case prop_year i of None \<Rightarrow> False | Some y \<Rightarrow> lo \<le> y \<and> y \<le> hi) coll"

text \<open>\<open>aggregate_array("system:time_start")\<close>, read as months: one entry per image.\<close>

definition aggregate_months :: "image list \<Rightarrow> nat list" where
  "aggregate_months coll = map snd (List.map_filter prop_time_start coll)"

subsection \<open>Reducers over a collection\<close>

fun valid_values :: "px list \<Rightarrow> real list" where
  "valid_values [] = []"
| "valid_values (None # vs) = valid_values vs"
| "valid_values (Some v # vs) = v # valid_values vs"

text \<open>\<open>ee.Reducer.mean()\<close>: the mean of the valid inputs, masked when there is none.\<close>

definition mean_px :: "px list \<Rightarrow> px" where
  "mean_px vs =
     (let ws = valid_values vs
      in if ws = [] then None else Some (sum_list ws / real (length ws)))"

text \<open>
  \<open>collection.reduce(reducer)\<close> with a reducer of one input and the outputs \<open>outs\<close>:
  band by band, over the images of the collection; the bands of the result are named
  \<open>band_output\<close>. The reduction of an empty collection is an image with no band, and a
  collection whose images differ in their number of bands cannot be reduced.
\<close>

definition reduce_coll :: "(string \<times> (px list \<Rightarrow> px)) list \<Rightarrow> image list \<Rightarrow> error + image" where
  "reduce_coll outs coll =
     (case coll of
        [] \<Rightarrow> Inr \<lparr>bands = [], prop_year = None, prop_time_start = None\<rparr>
      | i # rest \<Rightarrow>
          if filter (\<lambda>j. length (bands j) \<noteq> length (bands i)) rest = []
          then Inr \<lparr>bands =
                      concat (map (\<lambda>k. map (\<lambda>(out, r).
                                (fst (bands i ! k) @ ''_'' @ out, r (map (\<lambda>j. snd (bands j ! k)) coll))) outs)
                              [0..<length (bands i)]),
                    prop_year = None, prop_time_start = None\<rparr>
          else Inl (EEError ''Expected a homogeneous image collection''))"

definition reduce_mean :: "image list \<Rightarrow> error + image" where
  "reduce_mean coll = reduce_coll [(''mean'', mean_px)] coll"

section \<open>Annual integration (\<open>integration.py\<close>)\<close>

text \<open>\<open>ee.List.sequence(start, end)\<close> is the list of the years from start to end.\<close>

definition list_sequence :: "int \<Rightarrow> int \<Rightarrow> int list" where
  "list_sequence start end_year = [start..end_year]"

text \<open>
  \<open>int_yearly_ndvi\<close>, lines 236 to 263. \<open>months\<close> holds the month of every
  observation of the year, so one entry per observation; the monthly mean is computed
  once per entry.
\<close>

definition daily_to_monthly_to_annual :: "image list \<Rightarrow> int \<Rightarrow> error + image" where
  "daily_to_monthly_to_annual ndvi_coll y =
     (let ndvi_coll_ann = filter_calendar_year y ndvi_coll;
          months = aggregate_months ndvi_coll_ann
      in bindE (mapE (\<lambda>month. reduce_mean (filter_calendar_month month ndvi_coll_ann)) months)
           (\<lambda>img_coll. bindE (reduce_mean img_coll)
             (\<lambda>m. bindE (rename [''vi''] (img_float m))
               (\<lambda>r. Inr (set_year (Some y) r)))))"

definition int_yearly_ndvi :: "image list \<Rightarrow> int \<Rightarrow> int \<Rightarrow> error + image list" where
  "int_yearly_ndvi ndvi_coll start end_year =
     mapE (daily_to_monthly_to_annual ndvi_coll) (list_sequence start end_year)"

text \<open>
  \<open>int_yearly_climate\<close> (lines 266 to 282) and \<open>annual_modis_vi\<close> (lines 353 to 367)
  differ in the band name only: the mean of the year's images, renamed, with a constant
  band \<open>year\<close> added and the property \<open>year\<close> set.
\<close>

definition annual_mean :: "string \<Rightarrow> image list \<Rightarrow> int \<Rightarrow> error + image" where
  "annual_mean name coll y =
     bindE (reduce_mean (filter_calendar_year y coll))
       (\<lambda>m. bindE (rename [name] m)
         (\<lambda>r. bindE (rename [''year''] (img_float (img_constant (real_of_int y))))
           (\<lambda>c. Inr (set_year (Some y) (addBands r c)))))"

definition int_yearly_climate :: "image list \<Rightarrow> int \<Rightarrow> int \<Rightarrow> error + image list" where
  "int_yearly_climate precipitation start end_year =
     mapE (annual_mean ''clim'' precipitation) (list_sequence start end_year)"

definition annual_modis_vi :: "image list \<Rightarrow> int \<Rightarrow> int \<Rightarrow> error + image list" where
  "annual_modis_vi modis_img start end_year =
     mapE (annual_mean ''vi'' modis_img) (list_sequence start end_year)"

section \<open>Configuration and the engine's reducers\<close>

text \<open>
  The fields of \<open>model\<close> the scripts read (\<open>model.trajectory\<close>, \<open>model.start\<close>,
  \<open>model.end\<close>, ...), prefixed with \<open>m_\<close>.
\<close>

record model =
  m_trajectory :: string
  m_start :: int
  m_end :: int
  m_baseline_end :: int
  m_target_start :: int
  m_p_soc_t_start :: int
  m_p_soc_t_end :: int
  m_conversion_coef :: "real option"

text \<open>
  The module \<open>component.parameter\<close> (\<open>pm\<close>) is not among the sources: the constants,
  tables and the function the scripts take from it are the fields of \<open>parameter\<close>, and
  every result below holds for all their values unless a value is given.
  \<open>trajectories\<close> holds the \<open>value\<close> entries of \<open>pm.trajectories\<close>.
\<close>

record parameter =
  trajectories :: "string list"
  z_coefficient :: "int \<Rightarrow> real"
  int_16_min :: real
  land_cover_first_year :: int
  land_cover_max_year :: int
  translation_matrix :: "real list \<times> real list"
  IPCC_lc_change_matrix :: "real list"
  c_conversion_factor :: "real list"
  management_factor :: "real list"
  input_factor :: "real list"
  climate_conversion_matrix :: "real list \<times> real list"

text \<open>
  The statistical reducers of the engine are parameters too: Kendall's correlation (tau
  and p-value of a series), the linear fit (scale and offset of a series of pairs) and
  the percentile of a list of values.
\<close>

record reducers =
  kendallsCorrelation :: "px list \<Rightarrow> px \<times> px"
  linearFit :: "(px \<times> px) list \<Rightarrow> px \<times> px"
  percentile :: "nat \<Rightarrow> px list \<Rightarrow> px"

definition reduce_kendall :: "reducers \<Rightarrow> image list \<Rightarrow> error + image" where
  "reduce_kendall ee coll =
     reduce_coll [(''tau'', \<lambda>vs. fst (kendallsCorrelation ee vs)),
                  (''p-value'', \<lambda>vs. snd (kendallsCorrelation ee vs))] coll"

text \<open>\<open>ee.Reducer.linearFit()\<close> over images of two bands, x then y.\<close>

definition reduce_linearFit :: "reducers \<Rightarrow> image list \<Rightarrow> image" where
  "reduce_linearFit ee coll =
     (case coll of
        [] \<Rightarrow> \<lparr>bands = [], prop_year = None, prop_time_start = None\<rparr>
      | _ # _ \<Rightarrow>
          (let r = linearFit ee (map (\<lambda>i. (snd (bands i ! 0), snd (bands i ! 1))) coll)
           in \<lparr>bands = [(''scale'', fst r), (''offset'', snd r)],
               prop_year = None, prop_time_start = None\<rparr>))"

definition img_multiply_const :: "image \<Rightarrow> real \<Rightarrow> image" where
  "img_multiply_const img c = img_unop (\<lambda>v. px_multiply v (Some c)) img"

definition img_divide_const :: "image \<Rightarrow> real \<Rightarrow> image" where
  "img_divide_const img c = img_unop (\<lambda>v. px_divide v (Some c)) img"

section \<open>Trend estimators (\<open>productivity.py\<close>)\<close>

text \<open>\<open>ndvi_trend\<close>, lines 277 to 294.\<close>

definition ndvi_trend :: "reducers \<Rightarrow> parameter \<Rightarrow> int \<Rightarrow> int \<Rightarrow> image list \<Rightarrow> error + image" where
  "ndvi_trend ee pm start end_year integrated_annual_vi =
     (let n = end_year - start + 1;
          z = z_coefficient pm n
      in bindE (select_coll [''ndvi''] integrated_annual_vi)
           (\<lambda>c. bindE (reduce_kendall ee c)
             (\<lambda>k. bindE (select_img [''ndvi_tau''] k)
               (\<lambda>t. Inr (img_multiply_const t z)))))"

text \<open>
  \<open>ndvi_climate_merge\<close>, lines 378 to 402: the inner join of the climate series
  (primary) and the index series on the property \<open>year\<close>; each pair becomes one image
  with the bands of both and the year of the climate image.
\<close>

definition ndvi_climate_merge :: "image list \<Rightarrow> image list \<Rightarrow> error + image list" where
  "ndvi_climate_merge climate_yearly_integration ndvi_yearly_integration =
     bindE (select_coll [''clim''] climate_yearly_integration)
       (\<lambda>clim. bindE (select_coll [''ndvi''] ndvi_yearly_integration)
         (\<lambda>ndvi. Inr (concat (map (\<lambda>c.
              map (\<lambda>n. set_year (prop_year c) (addBands c n))
                  (filter (\<lambda>n. prop_year c \<noteq> None \<and> prop_year n = prop_year c) ndvi))
            clim))))"

text \<open>\<open>ndvi_prediction_climate\<close>, lines 318 to 330, for one image of the merged series.\<close>

definition ndvi_prediction_climate :: "image \<Rightarrow> image \<Rightarrow> error + image" where
  "ndvi_prediction_climate linear_model_climate_ndvi img =
     bindE (select_img [''offset''] linear_model_climate_ndvi)
       (\<lambda>off. bindE (select_img [''scale''] linear_model_climate_ndvi)
         (\<lambda>sc. bindE (select_img [''clim''] img)
           (\<lambda>cl. Inr (set_year (prop_year img)
                        (img_binop px_add off (img_binop px_multiply sc cl))))))"

text \<open>
  \<open>ndvi_residuals\<close>, lines 404 to 419. \<open>first()\<close> of an empty collection is
  \<open>null\<close>, and neither \<open>subtract\<close> nor \<open>ee.Image.constant\<close> takes \<open>null\<close>.
\<close>

definition ndvi_residuals :: "image list \<Rightarrow> image \<Rightarrow> error + image" where
  "ndvi_residuals modeled img =
     (case prop_year img of
        None \<Rightarrow> Inl (EEError ''Image.constant: value is null'')
      | Some y \<Rightarrow>
          bindE (select_img [''ndvi''] img)
            (\<lambda>ndvi_o.
              case filter_year_eq y modeled of
                [] \<Rightarrow> Inl (EEError ''Image.subtract: image2 is null'')
              | ndvi_p # _ \<Rightarrow>
                  rename [''year'', ''ndvi_res'']
                    (addBands (img_float (img_constant (real_of_int y)))
                              (img_binop px_subtract ndvi_o ndvi_p))))"

text \<open>
  \<open>restrend\<close>, lines 296 to 352. The residuals are mapped over the index series the
  function was given, not over the merged series.
\<close>

definition residual_yearly_ndvi :: "reducers \<Rightarrow> image list \<Rightarrow> image list \<Rightarrow> error + image list" where
  "residual_yearly_ndvi ee ndvi_yearly_integration climate_yearly_integration =
     bindE (ndvi_climate_merge climate_yearly_integration ndvi_yearly_integration)
       (\<lambda>merged. bindE (select_coll [''clim'', ''ndvi''] merged)
         (\<lambda>xy. bindE (select_coll [''clim''] merged)
           (\<lambda>cl. bindE (mapE (ndvi_prediction_climate (reduce_linearFit ee xy)) cl)
             (\<lambda>predicted_yearly_ndvi.
                mapE (ndvi_residuals predicted_yearly_ndvi) ndvi_yearly_integration))))"

definition restrend ::
  "reducers \<Rightarrow> parameter \<Rightarrow> int \<Rightarrow> int \<Rightarrow> image list \<Rightarrow> image list \<Rightarrow> error + image" where
  "restrend ee pm start end_year ndvi_yearly_integration climate_yearly_integration =
     (let n = end_year - start + 1;
          z = z_coefficient pm n
      in bindE (residual_yearly_ndvi ee ndvi_yearly_integration climate_yearly_integration)
           (\<lambda>res. bindE (select_coll [''ndvi_res''] res)
             (\<lambda>r. bindE (reduce_kendall ee r)
               (\<lambda>k. bindE (select_img [''ndvi_res_tau''] k)
                 (\<lambda>t. Inr (img_multiply_const t z))))))"

text \<open>\<open>use_efficiency_ratio\<close>, lines 422 to 435.\<close>

definition use_efficiency_ratio :: "image \<Rightarrow> error + image" where
  "use_efficiency_ratio img =
     bindE (select_img [''ndvi''] img)
       (\<lambda>ndvi_img. bindE (select_img [''clim''] img)
         (\<lambda>cl. case prop_year img of
                  None \<Rightarrow> Inl (EEError ''Image.constant: value is null'')
                | Some y \<Rightarrow>
                    bindE (rename [''ue'', ''year'']
                            (addBands (img_binop px_divide ndvi_img (img_divide_const cl 1000))
                                      (img_float (img_constant (real_of_int y)))))
                      (\<lambda>r. Inr (set_year (Some y) r))))"

text \<open>
  \<open>rain_use_efficiency_trend\<close>, lines 354 to 375: here the series the trend is taken
  over is mapped over the merged series.
\<close>

definition ue_yearly_collection :: "image list \<Rightarrow> image list \<Rightarrow> error + image list" where
  "ue_yearly_collection ndvi_yearly_integration climate_yearly_integration =
     bindE (ndvi_climate_merge climate_yearly_integration ndvi_yearly_integration)
       (\<lambda>merged. mapE use_efficiency_ratio merged)"

definition rain_use_efficiency_trend ::
  "reducers \<Rightarrow> parameter \<Rightarrow> int \<Rightarrow> int \<Rightarrow> image list \<Rightarrow> image list \<Rightarrow> error + image" where
  "rain_use_efficiency_trend ee pm start end_year ndvi_yearly_integration climate_yearly_integration =
     (let n = end_year - start + 1;
          z = z_coefficient pm n
      in bindE (ue_yearly_collection ndvi_yearly_integration climate_yearly_integration)
           (\<lambda>ue. bindE (select_coll [''ue''] ue)
             (\<lambda>r. bindE (reduce_kendall ee r)
               (\<lambda>k. bindE (select_img [''ue_tau''] k)
                 (\<lambda>t. Inr (img_multiply_const t z))))))"

section \<open>\<open>productivity_trajectory\<close> (\<open>productivity.py\<close>, lines 10 to 43)\<close>

text \<open>Python's \<open>xs[i]\<close> for \<open>i\<close> from 0: an index past the end raises.\<close>

definition py_index :: "'a list \<Rightarrow> nat \<Rightarrow> error + 'a" where
  "py_index xs i = (if i < length xs then Inr (xs ! i) else Inl IndexError)"

text \<open>
  The \<open>if\<close>/\<open>elif\<close> chain of lines 26 to 33 binds \<open>z_score\<close> in three branches and
  has no \<open>else\<close>: \<open>None\<close> is the local variable left unbound.
\<close>

definition z_score_of ::
  "reducers \<Rightarrow> parameter \<Rightarrow> model \<Rightarrow> image list \<Rightarrow> image list \<Rightarrow> error + image option" where
  "z_score_of ee pm mdl nvdi_yearly_integration climate_yearly_integration =
     bindE (py_index (trajectories pm) 0)
       (\<lambda>t0. if m_trajectory mdl = t0
              then bindE (ndvi_trend ee pm (m_start mdl) (m_end mdl) nvdi_yearly_integration)
                     (\<lambda>z. Inr (Some z))
              else bindE (py_index (trajectories pm) 1)
                (\<lambda>t1. if m_trajectory mdl = t1
                       then bindE (restrend ee pm (m_start mdl) (m_end mdl)
                                     nvdi_yearly_integration climate_yearly_integration)
                              (\<lambda>z. Inr (Some z))
                       else bindE (py_index (trajectories pm) 3)
                         (\<lambda>t3. if m_trajectory mdl = t3
                                then bindE (rain_use_efficiency_trend ee pm (m_start mdl) (m_end mdl)
                                              nvdi_yearly_integration climate_yearly_integration)
                                       (\<lambda>z. Inr (Some z))
                                else Inr None)))"

text \<open>Line 37 reads \<open>z_score\<close>: unbound, it raises \<open>UnboundLocalError\<close>.\<close>

definition productivity_trajectory ::
  "reducers \<Rightarrow> parameter \<Rightarrow> model \<Rightarrow> image list \<Rightarrow> image list \<Rightarrow> error + image" where
  "productivity_trajectory ee pm mdl nvdi_yearly_integration climate_yearly_integration =
     bindE (z_score_of ee pm mdl nvdi_yearly_integration climate_yearly_integration)
       (\<lambda>z. case z of
               None \<Rightarrow> Inl (UnboundLocalError ''z_score'')
             | Some z_score \<Rightarrow> Inr (single_band ''trajectory'' (trajectory_class (band0 z_score))))"

text \<open>
  The sibling of the same name in \<open>indicators/15-3/15-3-1/scripts/run.py\<close>, lines 114 to
  136, as far as it selects the method. The first and the fourth branch go on to a trend
  computation of a module that is not among the sources (here the branch taken, by its
  index). The second branch reads the local \<open>climate_1yr\<close> at line 124 before line 125
  assigns it, and raises. The third branch and the \<open>else\<close> raise a \<open>NameError\<close>; the
  message of the \<open>else\<close> holds the method's name between double quotes.
\<close>

definition double_quote :: string where
  "double_quote = [CHR 0x22]"

definition run_productivity_trajectory_method :: "parameter \<Rightarrow> string \<Rightarrow> error + nat" where
  "run_productivity_trajectory_method pm io_trajectory =
     bindE (py_index (trajectories pm) 0)
       (\<lambda>t0. if io_trajectory = t0 then Inr 0
              else bindE (py_index (trajectories pm) 1)
                (\<lambda>t1. if io_trajectory = t1 then Inl (UnboundLocalError ''climate_1yr'')
                       else bindE (py_index (trajectories pm) 2)
                         (\<lambda>t2. if io_trajectory = t2
                                then Inl (NameError ''s_restrend method not yet supported'')
                                else bindE (py_index (trajectories pm) 3)
                                  (\<lambda>t3. if io_trajectory = t3 then Inr 3
                                         else Inl (NameError (''Unrecognized method '' @ double_quote
                                                    @ io_trajectory @ double_quote))))))"

section \<open>\<open>productivity_performance\<close> (\<open>productivity.py\<close>, lines 45 to 129)\<close>

text \<open>
  The 90th percentile of the pixel's ecological zone (\<open>ecoregion_perc90\<close>) comes from a
  reduction over the whole area of interest; at one pixel it is an input.
\<close>

definition productivity_performance :: "image list \<Rightarrow> px \<Rightarrow> error + image" where
  "productivity_performance nvdi_yearly_integration ecoregion_perc90 =
     bindE (select_coll [''ndvi''] nvdi_yearly_integration)
       (\<lambda>c. bindE (reduce_mean c)
         (\<lambda>m. bindE (rename [''ndvi''] m)
           (\<lambda>ndvi_mean. Inr (single_band ''performance''
              (performance_class (observed_ratio (band0 ndvi_mean) ecoregion_perc90))))))"

section \<open>\<open>productivity_state\<close> (\<open>productivity.py\<close>, lines 131 to 247)\<close>

text \<open>
  Lines 201 to 211 and 214 to 224: the class of a mean among the deciles of the
  baseline, \<open>perc k\<close> being the band \<open>p\<close>k of \<open>baseline_ndvi_perc\<close>.
\<close>

definition percentile_classes :: "parameter \<Rightarrow> px \<Rightarrow> (nat \<Rightarrow> px) \<Rightarrow> px" where
  "percentile_classes pm ndvi_mean perc =
     (let c1 = px_where (Some (int_16_min pm)) (img_lte ndvi_mean (perc 10)) (Some 1);
          c2 = px_where c1 (img_gt ndvi_mean (perc 10)) (Some 2);
          c3 = px_where c2 (img_gt ndvi_mean (perc 20)) (Some 3);
          c4 = px_where c3 (img_gt ndvi_mean (perc 30)) (Some 4);
          c5 = px_where c4 (img_gt ndvi_mean (perc 40)) (Some 5);
          c6 = px_where c5 (img_gt ndvi_mean (perc 50)) (Some 6);
          c7 = px_where c6 (img_gt ndvi_mean (perc 60)) (Some 7);
          c8 = px_where c7 (img_gt ndvi_mean (perc 70)) (Some 8);
          c9 = px_where c8 (img_gt ndvi_mean (perc 80)) (Some 9)
      in px_where c9 (img_gt ndvi_mean (perc 90)) (Some 10))"

text \<open>Lines 228 to 235.\<close>

definition classes_change :: "parameter \<Rightarrow> px \<Rightarrow> px \<Rightarrow> (nat \<Rightarrow> px) \<Rightarrow> px" where
  "classes_change pm baseline_ndvi_mean target_ndvi_mean perc =
     px_where
       (px_subtract (percentile_classes pm target_ndvi_mean perc)
                    (percentile_classes pm baseline_ndvi_mean perc))
       (px_lte (px_abs (px_subtract baseline_ndvi_mean target_ndvi_mean)) 100)
       (Some 0)"

text \<open>Lines 240 to 245.\<close>

definition degredation :: "parameter \<Rightarrow> px \<Rightarrow> px" where
  "degredation pm change =
     px_uint8
       (px_where
         (px_where
           (px_where (Some (int_16_min pm)) (px_gte change 2) (Some 3))
           (px_And (px_lte change (- 2)) (px_neq change (int_16_min pm))) (Some 1))
         (px_And (px_lt change 2) (px_gt change (- 2))) (Some 2))"

text \<open>
  The whole function. The bands of the baseline years and the two padding bands
  (lines 160 to 181) are the list \<open>extended\<close>, which the percentile reducer reduces.
\<close>

definition productivity_state ::
  "reducers \<Rightarrow> parameter \<Rightarrow> model \<Rightarrow> image list \<Rightarrow> error + image" where
  "productivity_state ee pm mdl ndvi_yearly_integration =
     (let baseline = filter_year_range (m_start mdl) (m_baseline_end mdl) ndvi_yearly_integration;
          target = filter_year_range (m_target_start mdl) (m_end mdl) ndvi_yearly_integration
      in bindE (select_coll [''ndvi''] baseline)
        (\<lambda>b. bindE (reduce_coll [(''p0'', percentile ee 0), (''p100'', percentile ee 100)] b)
          (\<lambda>baseline_ndvi_range. bindE (select_img [''ndvi_p100''] baseline_ndvi_range)
            (\<lambda>p100. bindE (select_img [''ndvi_p0''] baseline_ndvi_range)
              (\<lambda>p0. bindE (reduce_mean b)
                (\<lambda>bm. bindE (rename [''ndvi''] bm)
                  (\<lambda>baseline_ndvi_mean. bindE (select_coll [''ndvi''] target)
                    (\<lambda>t. bindE (reduce_mean t)
                      (\<lambda>tm. bindE (rename [''ndvi''] tm)
                        (\<lambda>target_ndvi_mean.
                          (let baseline_ndvi_5p =
                                 px_multiply (px_subtract (band0 p100) (band0 p0)) (Some 0.05);
                               extended = map band0 b @
                                 [px_subtract (band0 p0) baseline_ndvi_5p,
                                  px_add (band0 p100) baseline_ndvi_5p];
                               perc = (\<lambda>k. percentile ee k extended)
                           in Inr (single_band ''state''
                                (degredation pm
                                  (classes_change pm (band0 baseline_ndvi_mean)
                                     (band0 target_ndvi_mean) perc))))))))))))))"

section \<open>\<open>soil_organic_carbon\<close> (\<open>soil_organic_carbon.py\<close>)\<close>

text \<open>
  \<open>remap(from, to)\<close>: a value of \<open>from\<close> becomes the value of \<open>to\<close> at the same
  place; any other value is masked.
\<close>

definition remap :: "real list \<Rightarrow> real list \<Rightarrow> px \<Rightarrow> px" where
  "remap from_values to_values v =
     (case v of None \<Rightarrow> None | Some x \<Rightarrow> map_of (zip from_values to_values) x)"

definition px_updateMask :: "px \<Rightarrow> px \<Rightarrow> px" where
  "px_updateMask v m =
     (case v of
        None \<Rightarrow> None
      | Some x \<Rightarrow> (case m of None \<Rightarrow> None | Some t \<Rightarrow> if t \<noteq> 0 then Some x else None))"

text \<open>The state the year loop carries: one pixel of each raster, and the two band stacks.\<close>

record soc_state =
  lc_transition :: px
  lc_transition_time :: px
  organic_carbon_change :: px
  lc_images :: "px list"
  soc_images :: "px list"

text \<open>
  The land cover of a year, reclassified (lines 31 to 47 and 96 to 106): the first image
  of that calendar year; \<open>first()\<close> of an empty collection is \<open>null\<close>.
\<close>

definition lc_time :: "parameter \<Rightarrow> image list \<Rightarrow> int \<Rightarrow> error + px" where
  "lc_time pm landcover y =
     (case filter_calendar_year y landcover of
        [] \<Rightarrow> Inl (EEError ''Image.remap: image is null'')
      | i # _ \<Rightarrow> Inr (remap (fst (translation_matrix pm)) (snd (translation_matrix pm)) (band0 i)))"

text \<open>The transition code of the first two years, line 50.\<close>

definition lc_transition_first :: "px \<Rightarrow> px \<Rightarrow> px" where
  "lc_transition_first lc_time0 lc_time1 = px_add (px_multiply lc_time0 (Some 100)) lc_time1"

text \<open>The transition code of a later pair of years, lines 114 and 115.\<close>

definition lc_transition_next :: "px \<Rightarrow> px \<Rightarrow> px \<Rightarrow> px" where
  "lc_transition_next previous lc_time0 lc_time1 =
     (let lc_transition_temp = px_add (px_multiply lc_time0 (Some 10)) lc_time1
      in px_where previous (img_neq lc_time0 lc_time1) lc_transition_temp)"

text \<open>The three change factors of a transition code and the yearly change of the stock.\<close>

definition lc_transition_climate_coef :: "parameter \<Rightarrow> px \<Rightarrow> px \<Rightarrow> px" where
  "lc_transition_climate_coef pm climate_conversion_coef transition =
     (let tmp = remap (IPCC_lc_change_matrix pm) (c_conversion_factor pm) transition
      in px_where
           (px_where tmp (px_eq tmp 333) climate_conversion_coef)
           (px_eq tmp (- 333)) (px_divide (Some 1) climate_conversion_coef))"

definition stock_change :: "parameter \<Rightarrow> px \<Rightarrow> px \<Rightarrow> px \<Rightarrow> px" where
  "stock_change pm climate_conversion_coef stock transition =
     px_divide
       (px_subtract stock
          (px_multiply
             (px_multiply
                (px_multiply stock (lc_transition_climate_coef pm climate_conversion_coef transition))
                (remap (IPCC_lc_change_matrix pm) (management_factor pm) transition))
             (remap (IPCC_lc_change_matrix pm) (input_factor pm) transition)))
       (Some 20)"

text \<open>Lines 49 to 89: the first two years.\<close>

definition soc_first :: "parameter \<Rightarrow> px \<Rightarrow> px \<Rightarrow> px \<Rightarrow> px \<Rightarrow> soc_state" where
  "soc_first pm climate_conversion_coef soc lc_time0 lc_time1 =
     (let transition = lc_transition_first lc_time0 lc_time1;
          change = stock_change pm climate_conversion_coef soc transition
      in \<lparr>lc_transition = transition,
          lc_transition_time = px_where (Some 2) (img_neq lc_time0 lc_time1) (Some 1),
          organic_carbon_change = change,
          lc_images = [lc_time0, lc_time1],
          soc_images = [soc, px_subtract soc change]\<rparr>)"

text \<open>\<open>soc_images.select(k)\<close>: the band at index \<open>k\<close> of the stack, which must be there.\<close>

definition select_index :: "px list \<Rightarrow> int \<Rightarrow> error + px" where
  "select_index stack k =
     (if 0 \<le> k \<and> nat k < length stack then Inr (stack ! nat k)
      else Inl (EEError ''Image.select: band index out of range''))"

text \<open>Lines 108 to 157: one turn of the loop, for \<open>year\<close>.\<close>

definition soc_step ::
  "parameter \<Rightarrow> px \<Rightarrow> int \<Rightarrow> int \<Rightarrow> px \<Rightarrow> px \<Rightarrow> soc_state \<Rightarrow> error + soc_state" where
  "soc_step pm climate_conversion_coef p_soc_t_start y lc_time0 lc_time1 st =
     (let transition_time =
            px_where
              (px_where (lc_transition_time st) (img_eq lc_time0 lc_time1)
                 (px_add (lc_transition_time st) (Some 1)))
              (img_neq lc_time0 lc_time1) (Some 1);
          transition = lc_transition_next (lc_transition st) lc_time0 lc_time1;
          year_index = y - p_soc_t_start
      in bindE (select_index (soc_images st) year_index)
           (\<lambda>stock.
              (let change =
                     px_where
                       (px_where (organic_carbon_change st) (img_neq lc_time0 lc_time1)
                          (stock_change pm climate_conversion_coef stock transition))
                       (px_gt transition_time 20) (Some 0)
               in Inr \<lparr>lc_transition = transition,
                       lc_transition_time = transition_time,
                       organic_carbon_change = change,
                       lc_images = lc_images st @ [lc_time1],
                       soc_images = soc_images st @ [px_subtract stock change]\<rparr>)))"

fun soc_loop ::
  "parameter \<Rightarrow> px \<Rightarrow> image list \<Rightarrow> int \<Rightarrow> int list \<Rightarrow> soc_state \<Rightarrow> error + soc_state" where
  "soc_loop pm coef landcover p_soc_t_start [] st = Inr st"
| "soc_loop pm coef landcover p_soc_t_start (y # years) st =
     bindE (lc_time pm landcover y)
       (\<lambda>lc_time0. bindE (lc_time pm landcover (y + 1))
         (\<lambda>lc_time1. bindE (soc_step pm coef p_soc_t_start y lc_time0 lc_time1 st)
           (\<lambda>st'. soc_loop pm coef landcover p_soc_t_start years st')))"

text \<open>
  The whole function: \<open>soc\<close> is the pixel of the stock raster, \<open>ipcc_climate_zones\<close>
  the pixel of the climate zones, \<open>land_cover_ic\<close> the yearly land cover collection.
  \<open>range(a, b)\<close> is the list of the integers from \<open>a\<close> to \<open>b - 1\<close>.
\<close>

definition soil_organic_carbon ::
  "parameter \<Rightarrow> model \<Rightarrow> px \<Rightarrow> px \<Rightarrow> image list \<Rightarrow> error + image" where
  "soil_organic_carbon pm mdl soc_raster ipcc_climate_zones land_cover_ic =
     (let soc = px_updateMask soc_raster (px_neq soc_raster (int_16_min pm));
          lc_year_end = min (max (m_p_soc_t_end mdl) (land_cover_first_year pm)) (land_cover_max_year pm);
          landcover =
            filter (\<lambda>i. case prop_time_start i of
                          None \<Rightarrow> False
                        | Some t \<Rightarrow> m_p_soc_t_start mdl \<le> fst t \<and> fst t \<le> lc_year_end) land_cover_ic;
          climate_conversion_coef =
            (case m_conversion_coef mdl of
               None \<Rightarrow> remap (fst (climate_conversion_matrix pm)) (snd (climate_conversion_matrix pm))
                         ipcc_climate_zones
             | Some c \<Rightarrow>
                 if c = 0
                 then remap (fst (climate_conversion_matrix pm)) (snd (climate_conversion_matrix pm))
                        ipcc_climate_zones
                 else Some c)
      in bindE (lc_time pm landcover (m_p_soc_t_start mdl))
        (\<lambda>lc_time0. bindE (lc_time pm landcover (m_p_soc_t_start mdl + 1))
          (\<lambda>lc_time1. bindE
              (soc_loop pm climate_conversion_coef landcover (m_p_soc_t_start mdl)
                 [m_p_soc_t_start mdl + 1 .. lc_year_end - 1]
                 (soc_first pm climate_conversion_coef soc lc_time0 lc_time1))
            (\<lambda>st. bindE (select_index (soc_images st) (lc_year_end - m_p_soc_t_start mdl))
              (\<lambda>stock_end. bindE (select_index (soc_images st) 0)
                (\<lambda>stock_start. Inr (single_band ''soc''
                    (soc_class (soc_percent_change stock_end stock_start)))))))))"

section \<open>The specification's two-level mean, and inputs for the examples\<close>

text \<open>
  The annual composite as the specification words it (section 4.3): the observations
  of the year are averaged within each calendar month, and the monthly composites, one
  per month that has an observation, are averaged. It is compared below with what
  \<open>int_yearly_ndvi\<close> computes.
\<close>

definition spec_annual_composite :: "image list \<Rightarrow> int \<Rightarrow> px" where
  "spec_annual_composite ndvi_coll y =
     (let ndvi_coll_ann = filter_calendar_year y ndvi_coll
      in mean_px (map (\<lambda>month. mean_px (map band0 (filter_calendar_month month ndvi_coll_ann)))
                      (remdups (aggregate_months ndvi_coll_ann))))"

text \<open>An observation of one band, taken in month \<open>m\<close> of year \<open>y\<close>.\<close>

definition observation :: "string \<Rightarrow> int \<Rightarrow> nat \<Rightarrow> px \<Rightarrow> image" where
  "observation name y m v = \<lparr>bands = [(name, v)], prop_year = None, prop_time_start = Some (y, m)\<rparr>"

text \<open>An image of an annual series: one band, and the property \<open>year\<close>.\<close>

definition annual_image :: "string \<Rightarrow> int \<Rightarrow> px \<Rightarrow> image" where
  "annual_image name y v = \<lparr>bands = [(name, v)], prop_year = Some y, prop_time_start = None\<rparr>"

text \<open>The trajectory methods as \<open>run.py\<close>, line 114, lists them.\<close>

definition trajectory_names :: "string list" where
  "trajectory_names = [''ndvi_trend'', ''p_restrend'', ''s_restrend'', ''ue_trend'']"

section \<open>General facts\<close>

lemmas px_defs =
  px_bool_def px_And_def px_uint8_def px_add_def px_subtract_def px_multiply_def
  px_divide_def px_abs_def img_lte_def img_gt_def img_eq_def img_neq_def

lemmas integration_defs =
  int_yearly_ndvi_def daily_to_monthly_to_annual_def list_sequence_def
  filter_calendar_year_def filter_calendar_month_def aggregate_months_def
  reduce_mean_def reduce_coll_def mean_px_def rename_def img_float_def set_year_def
  annual_mean_def annual_modis_vi_def int_yearly_climate_def addBands_def
  img_constant_def single_band_def observation_def

lemma bindE_Inr_iff: "bindE m f = Inr y \<longleftrightarrow> (\<exists>x. m = Inr x \<and> f x = Inr y)"
  by (cases m) auto

lemma bindE_isl: "isl m \<Longrightarrow> isl (bindE m f)"
  by (cases m) auto

lemma mapE_Inr_iff: "mapE f xs = Inr ys \<longleftrightarrow> list_all2 (\<lambda>x y. f x = Inr y) xs ys"
proof (induction xs arbitrary: ys)
  case Nil
  show ?case by auto
next
  case (Cons x xs)
  show ?case
    by (cases ys) (auto simp: bindE_Inr_iff Cons.IH list_all2_Cons1)
qed

lemma mapE_all_fail: "xs \<noteq> [] \<Longrightarrow> \<forall>x\<in>set xs. f x = Inl e \<Longrightarrow> mapE f xs = Inl e"
  by (cases xs) auto

lemma mapE_total_rel:
  "\<forall>x\<in>set xs. \<exists>y. f x = Inr y \<and> R x y \<Longrightarrow> \<exists>ys. mapE f xs = Inr ys \<and> list_all2 R xs ys"
proof (induction xs)
  case Nil
  show ?case by simp
next
  case (Cons x xs)
  then obtain y ys where "f x = Inr y" "R x y" "mapE f xs = Inr ys" "list_all2 R xs ys" by auto
  then show ?case by simp
qed

lemma set_map_filter: "set (List.map_filter f xs) = {y. \<exists>x\<in>set xs. f x = Some y}"
  by (induction xs) (auto split: option.splits)

lemma upto_2001_2001: "[2001..2001] = [2001::int]"
  by (simp add: upto.simps)

lemma upto_2001_2002: "[2001..2002] = [2001, 2002::int]"
  by (simp add: upto.simps)

subsection \<open>Bands of the integrators' images\<close>

lemma rename_Inr: "rename names img = Inr r \<Longrightarrow> band_names r = names \<and> prop_year r = prop_year img"
  by (auto simp: rename_def band_names_def split: if_splits)

lemma daily_bands:
  "daily_to_monthly_to_annual coll y = Inr img \<Longrightarrow> band_names img = [''vi''] \<and> prop_year img = Some y"
  by (auto simp: daily_to_monthly_to_annual_def Let_def bindE_Inr_iff set_year_def band_names_def
      dest!: rename_Inr)

lemma annual_mean_bands:
  "annual_mean name coll y = Inr img \<Longrightarrow> band_names img = [name, ''year''] \<and> prop_year img = Some y"
  by (auto simp: annual_mean_def bindE_Inr_iff set_year_def addBands_def band_names_def
      dest!: rename_Inr)

lemma int_yearly_ndvi_bands:
  assumes "int_yearly_ndvi coll start end_year = Inr series" and "img \<in> set series"
  shows "band_names img = [''vi'']"
  using assms
  by (auto simp: int_yearly_ndvi_def mapE_Inr_iff list_all2_conv_all_nth in_set_conv_nth
      dest: daily_bands)

lemma annual_modis_vi_bands:
  assumes "annual_modis_vi coll start end_year = Inr series" and "img \<in> set series"
  shows "band_names img = [''vi'', ''year'']"
  using assms
  by (auto simp: annual_modis_vi_def mapE_Inr_iff list_all2_conv_all_nth in_set_conv_nth
      dest: annual_mean_bands)

lemma integrator_length:
  assumes "int_yearly_ndvi coll start end_year = Inr series
         \<or> annual_modis_vi coll start end_year = Inr series"
  shows "length series = length [start..end_year]"
  using assms
  by (auto simp: int_yearly_ndvi_def annual_modis_vi_def list_sequence_def mapE_Inr_iff
      dest: list_all2_lengthD)

subsection \<open>Selecting a band that is not there\<close>

lemma select_img_missing:
  "n \<notin> set (band_names img) \<Longrightarrow>
   select_img [n] img = Inl (EEError ''Image.select: Pattern did not match any bands'')"
proof -
  assume "n \<notin> set (band_names img)"
  then have "map_of (bands img) n = None"
    by (simp add: band_names_def map_of_eq_None_iff)
  then show ?thesis by (simp add: select_img_def)
qed

lemma select_coll_missing:
  assumes "coll \<noteq> []" and "\<forall>img\<in>set coll. n \<notin> set (band_names img)"
  shows "select_coll [n] coll = Inl (EEError ''Image.select: Pattern did not match any bands'')"
  unfolding select_coll_def using assms
  by (intro mapE_all_fail) (auto simp: select_img_missing)

lemma ndvi_climate_merge_fails:
  assumes "select_coll [''ndvi''] series = Inl e"
  shows "isl (ndvi_climate_merge clim series)"
  using assms by (cases "select_coll [''clim''] clim") (auto simp: ndvi_climate_merge_def)

subsection \<open>The mean of a collection of one-band images\<close>

lemma valid_values_all_None: "\<forall>v\<in>set vs. v = None \<Longrightarrow> valid_values vs = []"
  by (induction vs) auto

lemma mean_px_all_None: "\<forall>v\<in>set vs. v = None \<Longrightarrow> mean_px vs = None"
  by (simp add: mean_px_def valid_values_all_None)

lemma band0_single: "length (bands i) = 1 \<Longrightarrow> snd (bands i ! 0) = band0 i"
  by (cases "bands i") (auto simp: band0_def)

lemma reduce_mean_single:
  assumes "coll \<noteq> []" and "\<forall>i\<in>set coll. length (bands i) = 1"
  shows "\<exists>n. reduce_mean coll =
           Inr \<lparr>bands = [(n, mean_px (map band0 coll))], prop_year = None, prop_time_start = None\<rparr>"
proof -
  obtain i rest where coll: "coll = i # rest" using assms(1) by (cases coll) auto
  have homog: "filter (\<lambda>j. length (bands j) \<noteq> length (bands i)) rest = []"
    using assms(2) coll by (simp add: filter_empty_conv)
  have vals: "map (\<lambda>j. snd (bands j ! 0)) rest = map band0 rest" "snd (bands i ! 0) = band0 i"
    using assms(2) coll by (auto simp: band0_single)
  have len: "length (bands i) = 1" using assms(2) coll by simp
  show ?thesis
    unfolding reduce_mean_def reduce_coll_def
    using homog len by (simp add: coll vals)
qed

subsection \<open>Years that have observations\<close>

lemma monthly_means:
  assumes single: "\<forall>i\<in>set ann. length (bands i) = 1"
    and month: "month \<in> set (aggregate_months ann)"
  shows "\<exists>img. reduce_mean (filter_calendar_month month ann) = Inr img
           \<and> length (bands img) = 1
           \<and> ((\<forall>i\<in>set ann. band0 i = None) \<longrightarrow> band0 img = None)"
proof -
  from month obtain i t where "i \<in> set ann" "prop_time_start i = Some t" "snd t = month"
    by (auto simp: aggregate_months_def set_map_filter)
  then have "i \<in> set (filter_calendar_month month ann)"
    by (simp add: filter_calendar_month_def)
  then have ne: "filter_calendar_month month ann \<noteq> []" by auto
  have sub: "set (filter_calendar_month month ann) \<subseteq> set ann"
    by (auto simp: filter_calendar_month_def)
  with single have "\<forall>i\<in>set (filter_calendar_month month ann). length (bands i) = 1" by blast
  from reduce_mean_single [OF ne this] obtain n where
    r: "reduce_mean (filter_calendar_month month ann) =
          Inr \<lparr>bands = [(n, mean_px (map band0 (filter_calendar_month month ann)))],
               prop_year = None, prop_time_start = None\<rparr>" by blast
  have "mean_px (map band0 (filter_calendar_month month ann)) = None"
    if "\<forall>i\<in>set ann. band0 i = None"
    using that sub by (intro mean_px_all_None) auto
  with r show ?thesis by (auto simp: band0_def)
qed

lemma daily_total:
  assumes single: "\<forall>i\<in>set coll. length (bands i) = 1"
    and obs: "filter_calendar_year y coll \<noteq> []"
  shows "\<exists>img. daily_to_monthly_to_annual coll y = Inr img
           \<and> ((\<forall>i\<in>set (filter_calendar_year y coll). band0 i = None) \<longrightarrow> band0 img = None)"
proof -
  let ?ann = "filter_calendar_year y coll"
  let ?months = "aggregate_months ?ann"
  let ?R = "\<lambda>(month::nat) img.
              length (bands img) = 1 \<and> ((\<forall>i\<in>set ?ann. band0 i = None) \<longrightarrow> band0 img = None)"
  have single_ann: "\<forall>i\<in>set ?ann. length (bands i) = 1"
    using single by (simp add: filter_calendar_year_def)
  from obs obtain i where "i \<in> set ?ann" by (cases ?ann) auto
  then obtain t where "prop_time_start i = Some t"
    by (auto simp: filter_calendar_year_def split: option.splits)
  with \<open>i \<in> set ?ann\<close> have "snd t \<in> set ?months"
    by (auto simp: aggregate_months_def set_map_filter)
  then have months_ne: "?months \<noteq> []" by auto
  have "\<forall>month\<in>set ?months.
          \<exists>img. reduce_mean (filter_calendar_month month ?ann) = Inr img \<and> ?R month img"
    using monthly_means [OF single_ann] by blast
  from mapE_total_rel [OF this] obtain imgs where
    imgs: "mapE (\<lambda>month. reduce_mean (filter_calendar_month month ?ann)) ?months = Inr imgs"
    and rel: "list_all2 ?R ?months imgs" by blast
  from rel months_ne have imgs_ne: "imgs \<noteq> []" by (auto dest: list_all2_lengthD)
  from rel have each:
    "\<forall>img\<in>set imgs. length (bands img) = 1
        \<and> ((\<forall>i\<in>set ?ann. band0 i = None) \<longrightarrow> band0 img = None)"
    by (auto simp: list_all2_conv_all_nth in_set_conv_nth)
  then have "\<forall>img\<in>set imgs. length (bands img) = 1" by blast
  from reduce_mean_single [OF imgs_ne this] obtain n where
    r: "reduce_mean imgs =
          Inr \<lparr>bands = [(n, mean_px (map band0 imgs))], prop_year = None, prop_time_start = None\<rparr>"
    by blast
  have masked: "mean_px (map band0 imgs) = None" if "\<forall>i\<in>set ?ann. band0 i = None"
    using that each by (intro mean_px_all_None) auto
  have "daily_to_monthly_to_annual coll y =
          Inr \<lparr>bands = [(''vi'', mean_px (map band0 imgs))], prop_year = Some y,
               prop_time_start = None\<rparr>"
    using imgs r
    by (simp add: daily_to_monthly_to_annual_def Let_def img_float_def rename_def set_year_def)
  with masked show ?thesis by (auto simp: band0_def)
qed

lemma annual_mean_total:
  assumes single: "\<forall>i\<in>set coll. length (bands i) = 1"
    and obs: "filter_calendar_year y coll \<noteq> []"
  shows "\<exists>img. annual_mean name coll y = Inr img
           \<and> ((\<forall>i\<in>set (filter_calendar_year y coll). band0 i = None) \<longrightarrow> band0 img = None)"
proof -
  let ?ann = "filter_calendar_year y coll"
  have "\<forall>i\<in>set ?ann. length (bands i) = 1"
    using single by (simp add: filter_calendar_year_def)
  from reduce_mean_single [OF obs this] obtain n where
    r: "reduce_mean ?ann =
          Inr \<lparr>bands = [(n, mean_px (map band0 ?ann))], prop_year = None, prop_time_start = None\<rparr>"
    by blast
  have masked: "mean_px (map band0 ?ann) = None" if "\<forall>i\<in>set ?ann. band0 i = None"
    using that by (intro mean_px_all_None) auto
  have "annual_mean name coll y =
          Inr \<lparr>bands = [(name, mean_px (map band0 ?ann)), (''year'', Some (real_of_int y))],
               prop_year = Some y, prop_time_start = None\<rparr>"
    using r
    by (simp add: annual_mean_def img_float_def img_constant_def single_band_def rename_def
        set_year_def addBands_def)
  with masked show ?thesis by (auto simp: band0_def)
qed

lemma series_shape:
  assumes "list_all2 (\<lambda>y img. f y = Inr img \<and> (M y \<longrightarrow> band0 img = None)) ys series"
    and "\<And>y img. f y = Inr img \<Longrightarrow> prop_year img = Some y"
  shows "map prop_year series = map Some ys
       \<and> (\<forall>k<length ys. M (ys ! k) \<longrightarrow> band0 (series ! k) = None)"
  using assms by (auto simp: list_all2_conv_all_nth intro!: nth_equalityI)

subsection \<open>What the integrators return\<close>

lemma reduce_mean_Inr_one_band:
  assumes r: "reduce_mean coll = Inr m" and one: "length (bands m) = 1"
  shows "coll \<noteq> [] \<and> (\<forall>i\<in>set coll. length (bands i) = 1)
       \<and> m = \<lparr>bands = [(fst (bands (hd coll) ! 0) @ ''_mean'', mean_px (map band0 coll))],
               prop_year = None, prop_time_start = None\<rparr>"
proof (cases coll)
  case Nil
  with r one show ?thesis by (auto simp: reduce_mean_def reduce_coll_def)
next
  case (Cons i rest)
  have homog: "filter (\<lambda>j. length (bands j) \<noteq> length (bands i)) rest = []"
    using r Cons by (auto simp: reduce_mean_def reduce_coll_def split: if_splits)
  have "length (bands m) = length (bands i)"
    using r Cons homog by (auto simp: reduce_mean_def reduce_coll_def length_concat comp_def sum_list_triv)
  with one have len: "length (bands i) = 1" by simp
  with homog have all: "\<forall>j\<in>set coll. length (bands j) = 1"
    using Cons by (auto simp: filter_empty_conv)
  have ne: "coll \<noteq> []" using Cons by simp
  have vals: "map (\<lambda>j. snd (bands j ! 0)) rest = map band0 rest" "snd (bands i ! 0) = band0 i"
    using all Cons by (auto simp: band0_single)
  have "m = \<lparr>bands = [(fst (bands i ! 0) @ ''_mean'', mean_px (map band0 coll))],
               prop_year = None, prop_time_start = None\<rparr>"
    using r homog len unfolding reduce_mean_def reduce_coll_def by (simp add: Cons vals)
  with ne all Cons show ?thesis by simp
qed

lemma rename_one_Inr:
  assumes "rename [n] m = Inr r"
  shows "length (bands m) = 1 \<and> r = m\<lparr>bands := [(n, band0 m)]\<rparr>"
proof -
  from assms have len: "length (bands m) = 1"
    by (auto simp: rename_def split: if_splits)
  then obtain b where "bands m = [b]" by (cases "bands m") auto
  with assms show ?thesis by (auto simp: rename_def band0_def)
qed

lemma annual_mean_value:
  assumes "annual_mean name coll y = Inr img"
  shows "img = \<lparr>bands = [(name, mean_px (map band0 (filter_calendar_year y coll))),
                         (''year'', Some (real_of_int y))],
               prop_year = Some y, prop_time_start = None\<rparr>"
proof -
  from assms obtain m r c where m: "reduce_mean (filter_calendar_year y coll) = Inr m"
    and r: "rename [name] m = Inr r"
    and c: "rename [''year''] (img_float (img_constant (real_of_int y))) = Inr c"
    and img: "img = set_year (Some y) (addBands r c)"
    by (auto simp: annual_mean_def bindE_Inr_iff)
  from rename_one_Inr [OF r] have one: "length (bands m) = 1" and r': "r = m\<lparr>bands := [(name, band0 m)]\<rparr>"
    by auto
  from reduce_mean_Inr_one_band [OF m one]
  have m': "band0 m = mean_px (map band0 (filter_calendar_year y coll))"
     "prop_year m = None" "prop_time_start m = None"
    by (auto simp: band0_def)
  from c have c': "bands c = [(''year'', Some (real_of_int y))]"
    by (auto simp: rename_def img_float_def img_constant_def single_band_def)
  show ?thesis
    using img r' m' c' by (simp add: set_year_def addBands_def)
qed

lemma daily_value:
  assumes "daily_to_monthly_to_annual coll y = Inr img"
  shows "img = \<lparr>bands = [(''vi'',
                   mean_px (map (\<lambda>month. mean_px (map band0
                                   (filter_calendar_month month (filter_calendar_year y coll))))
                                (aggregate_months (filter_calendar_year y coll))))],
               prop_year = Some y, prop_time_start = None\<rparr>"
proof -
  let ?ann = "filter_calendar_year y coll"
  let ?months = "aggregate_months ?ann"
  from assms obtain imgs m r where
    imgs: "mapE (\<lambda>month. reduce_mean (filter_calendar_month month ?ann)) ?months = Inr imgs"
    and m: "reduce_mean imgs = Inr m"
    and r: "rename [''vi''] (img_float m) = Inr r"
    and img: "img = set_year (Some y) r"
    by (auto simp: daily_to_monthly_to_annual_def Let_def bindE_Inr_iff)
  from rename_one_Inr [OF r] have one: "length (bands m) = 1"
    and r': "r = m\<lparr>bands := [(''vi'', band0 m)]\<rparr>"
    by (auto simp: img_float_def)
  from reduce_mean_Inr_one_band [OF m one]
  have each: "\<forall>i\<in>set imgs. length (bands i) = 1"
    and m': "band0 m = mean_px (map band0 imgs)" "prop_year m = None" "prop_time_start m = None"
    by (auto simp: band0_def)
  from imgs have rel: "list_all2 (\<lambda>month i. reduce_mean (filter_calendar_month month ?ann) = Inr i) ?months imgs"
    by (simp add: mapE_Inr_iff)
  have "map band0 imgs = map (\<lambda>month. mean_px (map band0 (filter_calendar_month month ?ann))) ?months"
  proof (rule nth_equalityI)
    show "length (map band0 imgs) = length (map (\<lambda>month. mean_px (map band0 (filter_calendar_month month ?ann))) ?months)"
      using rel by (auto dest: list_all2_lengthD)
  next
    fix k assume "k < length (map band0 imgs)"
    then have k: "k < length imgs" by simp
    with rel have red: "reduce_mean (filter_calendar_month (?months ! k) ?ann) = Inr (imgs ! k)"
      by (auto simp: list_all2_conv_all_nth)
    from each k have "length (bands (imgs ! k)) = 1" by auto
    from reduce_mean_Inr_one_band [OF red this]
    have "band0 (imgs ! k) = mean_px (map band0 (filter_calendar_month (?months ! k) ?ann))"
      by (auto simp: band0_def)
    with k rel show "map band0 imgs ! k = map (\<lambda>month. mean_px (map band0 (filter_calendar_month month ?ann))) ?months ! k"
      by (auto dest: list_all2_lengthD)
  qed
  with img r' m' show ?thesis by (simp add: set_year_def)
qed

lemma mapE_Inr_map:
  assumes "mapE f xs = Inr ys" and "\<And>x y. f x = Inr y \<Longrightarrow> y = g x"
  shows "ys = map g xs"
  using assms by (auto simp: mapE_Inr_iff list_all2_conv_all_nth intro!: nth_equalityI)

subsection \<open>The classification chains in closed form\<close>

lemma trajectory_class_cases:
  "trajectory_class (Some z) =
     Some (if z < - 1.96 then 1 else if z > 1.96 then 3
           else if - 1.96 < z \<and> z < 1.96 then 2 else 0)"
  by (simp add: trajectory_class_def px_defs)

lemma performance_class_cases:
  "performance_class (Some r) = Some (if r \<le> 0.5 then 1 else 2)"
  by (simp add: performance_class_def px_defs)

lemma soc_class_cases:
  "soc_class (Some c) =
     Some (if c < - 10 then 1 else if - 10 < c \<and> c < 10 then 2 else if c > 10 then 3 else 0)"
  by (simp add: soc_class_def px_defs)

lemma px_where_Some: "c \<noteq> None \<Longrightarrow> px_where c t (Some v) \<noteq> None"
  by (cases c; cases t) auto

lemma percentile_classes_Some: "percentile_classes pm (Some m) perc \<noteq> None"
  by (simp add: percentile_classes_def Let_def px_where_Some)

lemma classes_change_forced:
  assumes "\<bar>b - t\<bar> \<le> 100"
  shows "classes_change pm (Some b) (Some t) perc = Some 0"
proof -
  obtain cb ct where "percentile_classes pm (Some b) perc = Some cb"
    "percentile_classes pm (Some t) perc = Some ct"
    using percentile_classes_Some by (metis not_None_eq)
  then show ?thesis using assms by (simp add: classes_change_def px_defs)
qed

lemma state_always_stable:
  assumes "\<bar>b - t\<bar> \<le> 100"
  shows "degredation pm (classes_change pm (Some b) (Some t) perc) = Some 2"
  by (simp add: classes_change_forced [OF assms] degredation_def px_defs)

section \<open>The claims\<close>

lemmas restrend_defs =
  residual_yearly_ndvi_def ndvi_climate_merge_def select_coll_def select_img_def annual_image_def
  set_year_def addBands_def reduce_linearFit_def ndvi_prediction_climate_def ndvi_residuals_def
  filter_year_eq_def img_binop_def band0_def rename_def img_float_def img_constant_def
  single_band_def ue_yearly_collection_def use_efficiency_ratio_def img_divide_const_def
  img_unop_def

text \<open>
  C1. The claim: every z-score falls into exactly one of the classes 1, 2, 3, and a
  z-score equal to -1.96 or to 1.96 is stable (2). In the code the three tests are all
  strict, so at the two boundary values none of them holds and the pixel keeps the 0 of
  \<open>ee.Image(0)\<close>, which is none of the three classes; just above the boundary the
  class is 3, and inside the band it is 2.
\<close>

theorem trajectory_class_at_boundary:
  "trajectory_class (Some 1.96) = Some 0
   \<and> trajectory_class (Some (- 1.96)) = Some 0
   \<and> trajectory_class (Some 1.960001) = Some 3
   \<and> trajectory_class (Some 0) = Some 2"
  by (simp add: trajectory_class_def px_defs)

text \<open>
  C2. The claim: a ratio of the mean index to the zone's 90th percentile that is exactly
  0.5 is not degraded (2). In the code the second \<open>where\<close> tests \<open>lte(0.5)\<close> and comes
  after the \<open>gte(0.5)\<close> one, so at exactly 0.5 it overwrites the 2 with 1: a pixel of
  mean 0.37 in a zone whose 90th percentile is 0.74 is degraded.
\<close>

theorem performance_class_at_half:
  "observed_ratio (Some 0.37) (Some 0.74) = Some 0.5
   \<and> performance_class (observed_ratio (Some 0.37) (Some 0.74)) = Some 1
   \<and> performance_class (Some 0.5) = Some 1"
  by (simp add: performance_class_def observed_ratio_def px_defs)

text \<open>
  C3. A series that \<open>int_yearly_ndvi\<close> returns holds, for each year from start to end,
  one image tagged with the year whose only band is named \<open>vi\<close> and carries the mean of
  the monthly means of the year; a series that \<open>annual_modis_vi\<close> returns holds, for each
  year, one image tagged with the year whose bands are \<open>vi\<close>, the mean of the year's
  images, and \<open>year\<close>. So every image of either series has a band \<open>vi\<close> and no band
  \<open>ndvi\<close>; the series is not empty when start is at most end; and on such a series
  every consumer in \<open>productivity.py\<close> fails where it selects \<open>ndvi\<close>: the trend
  estimators, the performance classifier, and the state classifier as soon as its
  baseline window holds an image.
\<close>

theorem integrator_series_band_is_vi_not_ndvi:
  assumes "int_yearly_ndvi coll start end_year = Inr series
         \<or> annual_modis_vi coll start end_year = Inr series"
  shows "(int_yearly_ndvi coll start end_year = Inr series \<longrightarrow>
            series =
              map (\<lambda>y. \<lparr>bands = [(''vi'',
                           mean_px (map (\<lambda>month. mean_px (map band0
                                           (filter_calendar_month month (filter_calendar_year y coll))))
                                        (aggregate_months (filter_calendar_year y coll))))],
                         prop_year = Some y, prop_time_start = None\<rparr>)
                  [start..end_year])
     \<and> (annual_modis_vi coll start end_year = Inr series \<longrightarrow>
            series =
              map (\<lambda>y. \<lparr>bands = [(''vi'', mean_px (map band0 (filter_calendar_year y coll))),
                                  (''year'', Some (real_of_int y))],
                         prop_year = Some y, prop_time_start = None\<rparr>)
                  [start..end_year])
     \<and> (\<forall>img\<in>set series. ''vi'' \<in> set (band_names img) \<and> ''ndvi'' \<notin> set (band_names img))
     \<and> (start \<le> end_year \<longrightarrow> series \<noteq> [])
     \<and> (series \<noteq> [] \<longrightarrow>
          ndvi_trend ee pm a b series
            = Inl (EEError ''Image.select: Pattern did not match any bands'')
        \<and> productivity_performance series zone_perc
            = Inl (EEError ''Image.select: Pattern did not match any bands'')
        \<and> isl (restrend ee pm a b series clim)
        \<and> isl (rain_use_efficiency_trend ee pm a b series clim))
     \<and> (filter_year_range (m_start mdl) (m_baseline_end mdl) series \<noteq> [] \<longrightarrow>
          productivity_state ee pm mdl series
            = Inl (EEError ''Image.select: Pattern did not match any bands''))"
proof -
  have ndvi_series: "series =
      map (\<lambda>y. \<lparr>bands = [(''vi'',
                   mean_px (map (\<lambda>month. mean_px (map band0
                                   (filter_calendar_month month (filter_calendar_year y coll))))
                                (aggregate_months (filter_calendar_year y coll))))],
                 prop_year = Some y, prop_time_start = None\<rparr>)
          [start..end_year]"
    if "int_yearly_ndvi coll start end_year = Inr series"
    using that unfolding int_yearly_ndvi_def list_sequence_def
    by (rule mapE_Inr_map) (rule daily_value)
  have modis_series: "series =
      map (\<lambda>y. \<lparr>bands = [(''vi'', mean_px (map band0 (filter_calendar_year y coll))),
                          (''year'', Some (real_of_int y))],
                 prop_year = Some y, prop_time_start = None\<rparr>)
          [start..end_year]"
    if "annual_modis_vi coll start end_year = Inr series"
    using that unfolding annual_modis_vi_def list_sequence_def
    by (rule mapE_Inr_map) (rule annual_mean_value)
  have names: "\<forall>img\<in>set series. band_names img = [''vi''] \<or> band_names img = [''vi'', ''year'']"
    using assms by (auto dest: int_yearly_ndvi_bands annual_modis_vi_bands)
  have present: "\<forall>img\<in>set series. ''vi'' \<in> set (band_names img) \<and> ''ndvi'' \<notin> set (band_names img)"
  proof
    fix img assume "img \<in> set series"
    with names have "band_names img = [''vi''] \<or> band_names img = [''vi'', ''year'']" by blast
    then show "''vi'' \<in> set (band_names img) \<and> ''ndvi'' \<notin> set (band_names img)" by auto
  qed
  then have absent: "\<forall>img\<in>set series. ''ndvi'' \<notin> set (band_names img)" by blast
  have nonempty: "start \<le> end_year \<longrightarrow> series \<noteq> []"
  proof
    assume "start \<le> end_year"
    then have "[start..end_year] \<noteq> []" by (simp add: upto.simps)
    with integrator_length [OF assms] show "series \<noteq> []" by auto
  qed
  have consumers:
    "ndvi_trend ee pm a b series = Inl (EEError ''Image.select: Pattern did not match any bands'')
     \<and> productivity_performance series zone_perc
         = Inl (EEError ''Image.select: Pattern did not match any bands'')
     \<and> isl (restrend ee pm a b series clim)
     \<and> isl (rain_use_efficiency_trend ee pm a b series clim)" if "series \<noteq> []"
  proof -
    have sel: "select_coll [''ndvi''] series
                 = Inl (EEError ''Image.select: Pattern did not match any bands'')"
      using that absent by (rule select_coll_missing)
    have merge: "isl (ndvi_climate_merge clim series)"
      using sel by (rule ndvi_climate_merge_fails)
    show ?thesis
      using sel merge
      by (simp add: ndvi_trend_def productivity_performance_def restrend_def
          residual_yearly_ndvi_def rain_use_efficiency_trend_def ue_yearly_collection_def
          Let_def bindE_isl)
  qed
  have state: "productivity_state ee pm mdl series
                 = Inl (EEError ''Image.select: Pattern did not match any bands'')"
    if "filter_year_range (m_start mdl) (m_baseline_end mdl) series \<noteq> []"
  proof -
    have "\<forall>img\<in>set (filter_year_range (m_start mdl) (m_baseline_end mdl) series).
            ''ndvi'' \<notin> set (band_names img)"
      using absent by (simp add: filter_year_range_def)
    with that have
      "select_coll [''ndvi''] (filter_year_range (m_start mdl) (m_baseline_end mdl) series)
         = Inl (EEError ''Image.select: Pattern did not match any bands'')"
      by (rule select_coll_missing)
    then show ?thesis by (simp add: productivity_state_def Let_def)
  qed
  from ndvi_series modis_series present nonempty consumers state show ?thesis by blast
qed

theorem integrator_series_band_is_vi_not_ndvi_witness:
  "int_yearly_ndvi
     [observation ''NDVI'' 2001 6 (Some 0.4), observation ''NDVI'' 2001 7 (Some 0.6)] 2001 2001
     = Inr [annual_image ''vi'' 2001 (Some 0.5)]
   \<and> band_names (annual_image ''vi'' 2001 (Some 0.5)) = [''vi'']
   \<and> productivity_performance [annual_image ''vi'' 2001 (Some 0.5)] (Some 0.6)
       = Inl (EEError ''Image.select: Pattern did not match any bands'')
   \<and> annual_modis_vi
     [observation ''NDVI'' 2001 6 (Some 0.4), observation ''NDVI'' 2001 7 (Some 0.6)] 2001 2001
     = Inr [addBands (annual_image ''vi'' 2001 (Some 0.5)) (single_band ''year'' (Some 2001))]
   \<and> band_names (addBands (annual_image ''vi'' 2001 (Some 0.5)) (single_band ''year'' (Some 2001)))
       = [''vi'', ''year'']
   \<and> productivity_performance
        [addBands (annual_image ''vi'' 2001 (Some 0.5)) (single_band ''year'' (Some 2001))] (Some 0.6)
       = Inl (EEError ''Image.select: Pattern did not match any bands'')"
proof -
  let ?obs = "[observation ''NDVI'' 2001 6 (Some 0.4), observation ''NDVI'' 2001 7 (Some 0.6)]"
  let ?vi = "annual_image ''vi'' 2001 (Some 0.5)"
  let ?modis = "addBands (annual_image ''vi'' 2001 (Some 0.5)) (single_band ''year'' (Some 2001))"
  have h1: "int_yearly_ndvi ?obs 2001 2001 = Inr [?vi]"
    by (simp add: integration_defs annual_image_def upto_2001_2001)
  have h2: "annual_modis_vi ?obs 2001 2001 = Inr [?modis]"
    by (simp add: integration_defs annual_image_def upto_2001_2001)
  from h1 have d1: "int_yearly_ndvi ?obs 2001 2001 = Inr [?vi]
                  \<or> annual_modis_vi ?obs 2001 2001 = Inr [?vi]"
    by (rule disjI1)
  from h2 have d2: "int_yearly_ndvi ?obs 2001 2001 = Inr [?modis]
                  \<or> annual_modis_vi ?obs 2001 2001 = Inr [?modis]"
    by (rule disjI2)
  have n1: "band_names ?vi = [''vi'']"
    by (simp add: band_names_def annual_image_def)
  have n2: "band_names ?modis = [''vi'', ''year'']"
    by (simp add: band_names_def annual_image_def addBands_def single_band_def)
  have p1: "productivity_performance [?vi] (Some 0.6)
              = Inl (EEError ''Image.select: Pattern did not match any bands'')"
    using integrator_series_band_is_vi_not_ndvi [where zone_perc = "Some 0.6", OF d1] by blast
  have p2: "productivity_performance [?modis] (Some 0.6)
              = Inl (EEError ''Image.select: Pattern did not match any bands'')"
    using integrator_series_band_is_vi_not_ndvi [where zone_perc = "Some 0.6", OF d2] by blast
  from h1 h2 n1 n2 p1 p2 show ?thesis by blast
qed

text \<open>
  C4. The claim: a percent change of the stock of exactly 10 or -10 is stable (2). In the
  code the tests are \<open>gt(10)\<close>, \<open>lt(10).And(gt(-10))\<close> and \<open>lt(-10)\<close>, all
  strict, so at the two boundary values the pixel keeps the 0 of \<open>ee.Image(0)\<close>: a
  stock that goes from 50 to 55, or from 50 to 45, gets the class 0.
\<close>

theorem soc_class_at_ten_percent:
  "soc_percent_change (Some 55) (Some 50) = Some 10
   \<and> soc_class (soc_percent_change (Some 55) (Some 50)) = Some 0
   \<and> soc_percent_change (Some 45) (Some 50) = Some (- 10)
   \<and> soc_class (soc_percent_change (Some 45) (Some 50)) = Some 0"
  by (simp add: soc_class_def soc_percent_change_def px_defs)

text \<open>
  C5. The claim: the annual composite is the mean of the monthly means, each month
  counted once. In the code \<open>months\<close> has one entry per observation, so a month with
  three observations contributes its mean three times: for January observations 1, 2, 3
  and one February observation 6, \<open>int_yearly_ndvi\<close> gives 3, the mean of the four
  observations, where the two-level mean of the specification is 4.
\<close>

theorem int_yearly_ndvi_counts_months_per_observation:
  "int_yearly_ndvi
     [observation ''ndvi'' 2001 1 (Some 1), observation ''ndvi'' 2001 1 (Some 2),
      observation ''ndvi'' 2001 1 (Some 3), observation ''ndvi'' 2001 2 (Some 6)] 2001 2001
   = Inr [annual_image ''vi'' 2001 (Some 3)]
   \<and> spec_annual_composite
     [observation ''ndvi'' 2001 1 (Some 1), observation ''ndvi'' 2001 1 (Some 2),
      observation ''ndvi'' 2001 1 (Some 3), observation ''ndvi'' 2001 2 (Some 6)] 2001
   = Some 4"
  by (simp add: integration_defs annual_image_def spec_annual_composite_def band0_def
      upto_2001_2001)

text \<open>
  C6. The claim: the residual series of RESTREND has one entry per year present in both
  series and none for a year present in one only. In the code the residuals are mapped
  over the whole index series: for an index series of 2001 and 2002 and a climate series
  of 2001 only, the prediction for 2002 is \<open>null\<close> and the residual series, and with it
  \<open>restrend\<close>, fails. The rain-use-efficiency series, mapped over the merged series,
  has the one year 2001 on the same input.
\<close>

theorem restrend_residuals_fail_on_unmatched_year:
  "residual_yearly_ndvi ee
     [annual_image ''ndvi'' 2001 (Some 0.3), annual_image ''ndvi'' 2002 (Some 0.4)]
     [annual_image ''clim'' 2001 (Some 500)]
   = Inl (EEError ''Image.subtract: image2 is null'')
   \<and> restrend ee pm 2001 2002
     [annual_image ''ndvi'' 2001 (Some 0.3), annual_image ''ndvi'' 2002 (Some 0.4)]
     [annual_image ''clim'' 2001 (Some 500)]
   = Inl (EEError ''Image.subtract: image2 is null'')
   \<and> map_sum id (map prop_year) (ue_yearly_collection
     [annual_image ''ndvi'' 2001 (Some 0.3), annual_image ''ndvi'' 2002 (Some 0.4)]
     [annual_image ''clim'' 2001 (Some 500)])
   = Inr [Some 2001]"
  by (simp add: restrend_def restrend_defs Let_def px_defs)

text \<open>
  C7. The claim: \<open>s_restrend\<close> fails with a not-implemented error and an unknown
  method with a configuration error. \<open>productivity_trajectory\<close> of \<open>productivity.py\<close>
  has no branch for either: both fall through the \<open>if\<close> chain and fail at line 37 with
  the same \<open>UnboundLocalError\<close> for \<open>z_score\<close>. The function of the same name in
  \<open>run.py\<close> raises the two errors the claim describes.
\<close>

theorem productivity_trajectory_unbound_z_score:
  "productivity_trajectory ee (pm\<lparr>trajectories := trajectory_names\<rparr>)
     (mdl\<lparr>m_trajectory := ''s_restrend''\<rparr>) ndvi clim = Inl (UnboundLocalError ''z_score'')
   \<and> productivity_trajectory ee (pm\<lparr>trajectories := trajectory_names\<rparr>)
     (mdl\<lparr>m_trajectory := ''kendall''\<rparr>) ndvi clim = Inl (UnboundLocalError ''z_score'')
   \<and> run_productivity_trajectory_method (pm\<lparr>trajectories := trajectory_names\<rparr>) ''s_restrend''
       = Inl (NameError ''s_restrend method not yet supported'')
   \<and> run_productivity_trajectory_method (pm\<lparr>trajectories := trajectory_names\<rparr>) ''kendall''
       = Inl (NameError (''Unrecognized method '' @ double_quote @ ''kendall'' @ double_quote))"
  by (simp add: productivity_trajectory_def z_score_of_def py_index_def trajectory_names_def
      run_productivity_trajectory_method_def)

text \<open>
  C8. The claim: the transition code is the earlier class times 10 plus the later one for
  the first pair of years as for every later pair. In the code the first pair is encoded
  with a factor 100 (line 50) and the later pairs with a factor 10 (line 114): for the
  classes 1 then 2 the first pair gives 102 and a later pair 12, and a pixel that never
  changes keeps the 101 of the first pair.
\<close>

theorem lc_transition_first_pair_encoding:
  "lc_transition (soc_first pm coef soc (Some 1) (Some 2)) = Some 102
   \<and> lc_transition_next (Some 101) (Some 1) (Some 2) = Some 12
   \<and> lc_transition_next (Some 101) (Some 1) (Some 1) = Some 101"
  by (simp add: soc_first_def lc_transition_first_def lc_transition_next_def px_defs Let_def)

text \<open>
  C9, as amended. For start at most end and series of one-band observations that have
  at least one observation in every year from start to end, \<open>int_yearly_ndvi\<close> and
  \<open>int_yearly_climate\<close> return a series with exactly one image per year, in the order
  of the years, each tagged with its year; and a pixel that is masked in every
  observation of a year is masked in the image of that year, not 0.
\<close>

theorem annual_integration_one_raster_per_year:
  assumes "start \<le> end_year"
    and "\<forall>i\<in>set ndvi_coll. length (bands i) = 1"
    and "\<forall>i\<in>set precipitation. length (bands i) = 1"
    and "\<forall>y\<in>set [start..end_year].
           filter_calendar_year y ndvi_coll \<noteq> [] \<and> filter_calendar_year y precipitation \<noteq> []"
  shows "\<exists>vi clim.
           int_yearly_ndvi ndvi_coll start end_year = Inr vi
         \<and> int_yearly_climate precipitation start end_year = Inr clim
         \<and> map prop_year vi = map Some [start..end_year]
         \<and> map prop_year clim = map Some [start..end_year]
         \<and> (\<forall>k<length [start..end_year].
              ((\<forall>i\<in>set (filter_calendar_year ([start..end_year] ! k) ndvi_coll). band0 i = None)
                 \<longrightarrow> band0 (vi ! k) = None)
            \<and> ((\<forall>i\<in>set (filter_calendar_year ([start..end_year] ! k) precipitation). band0 i = None)
                 \<longrightarrow> band0 (clim ! k) = None))"
proof -
  let ?ys = "[start..end_year]"
  let ?Mv = "\<lambda>y. \<forall>i\<in>set (filter_calendar_year y ndvi_coll). band0 i = None"
  let ?Mc = "\<lambda>y. \<forall>i\<in>set (filter_calendar_year y precipitation). band0 i = None"
  have "\<forall>y\<in>set ?ys. \<exists>img. daily_to_monthly_to_annual ndvi_coll y = Inr img
          \<and> (daily_to_monthly_to_annual ndvi_coll y = Inr img \<and> (?Mv y \<longrightarrow> band0 img = None))"
    using daily_total [OF assms(2)] assms(4) by blast
  from mapE_total_rel [OF this] obtain vi where
    vi: "int_yearly_ndvi ndvi_coll start end_year = Inr vi"
    and vi_rel: "list_all2 (\<lambda>y img. daily_to_monthly_to_annual ndvi_coll y = Inr img
                    \<and> (?Mv y \<longrightarrow> band0 img = None)) ?ys vi"
    unfolding int_yearly_ndvi_def list_sequence_def by blast
  have "\<forall>y\<in>set ?ys. \<exists>img. annual_mean ''clim'' precipitation y = Inr img
          \<and> (annual_mean ''clim'' precipitation y = Inr img \<and> (?Mc y \<longrightarrow> band0 img = None))"
    using annual_mean_total [OF assms(3)] assms(4) by blast
  from mapE_total_rel [OF this] obtain clim where
    clim: "int_yearly_climate precipitation start end_year = Inr clim"
    and clim_rel: "list_all2 (\<lambda>y img. annual_mean ''clim'' precipitation y = Inr img
                    \<and> (?Mc y \<longrightarrow> band0 img = None)) ?ys clim"
    unfolding int_yearly_climate_def list_sequence_def by blast
  have v: "map prop_year vi = map Some ?ys
         \<and> (\<forall>k<length ?ys. ?Mv (?ys ! k) \<longrightarrow> band0 (vi ! k) = None)"
    using vi_rel by (rule series_shape) (simp add: daily_bands)
  have c: "map prop_year clim = map Some ?ys
         \<and> (\<forall>k<length ?ys. ?Mc (?ys ! k) \<longrightarrow> band0 (clim ! k) = None)"
    using clim_rel by (rule series_shape) (simp add: annual_mean_bands)
  from vi clim v c show ?thesis by blast
qed

theorem annual_integration_one_raster_per_year_witness:
  "\<exists>vi clim.
      int_yearly_ndvi
        [observation ''ndvi'' 2001 3 (Some 0.4), observation ''ndvi'' 2002 5 None] 2001 2002
        = Inr vi
    \<and> int_yearly_climate
        [observation ''precipitation'' 2001 1 (Some 30), observation ''precipitation'' 2002 1 None]
        2001 2002 = Inr clim
    \<and> map prop_year vi = [Some 2001, Some 2002]
    \<and> map prop_year clim = [Some 2001, Some 2002]
    \<and> band0 (vi ! 1) = None \<and> band0 (clim ! 1) = None"
proof -
  let ?n = "[observation ''ndvi'' 2001 3 (Some 0.4), observation ''ndvi'' 2002 5 None]"
  let ?p = "[observation ''precipitation'' 2001 1 (Some 30),
             observation ''precipitation'' 2002 1 None]"
  have h1: "(2001::int) \<le> 2002" by simp
  have h2: "\<forall>i\<in>set ?n. length (bands i) = 1" by (simp add: observation_def)
  have h3: "\<forall>i\<in>set ?p. length (bands i) = 1" by (simp add: observation_def)
  have h4: "\<forall>y\<in>set [2001..2002].
              filter_calendar_year y ?n \<noteq> [] \<and> filter_calendar_year y ?p \<noteq> []"
    by (simp add: upto_2001_2002 filter_calendar_year_def observation_def)
  show ?thesis
    using annual_integration_one_raster_per_year [OF h1 h2 h3 h4]
    by (simp add: upto_2001_2002 filter_calendar_year_def observation_def band0_def
        All_less_Suc2 numeral_2_eq_2)
qed

text \<open>
  C9 as stated fails: with observations in 2002 only, the year 2001 of the range 2001 to
  2002 has no observation; the mean of its empty collection has no band, \<open>rename\<close>
  cannot name it, and neither integrator returns a series.
\<close>

theorem annual_integration_empty_year_fails:
  "int_yearly_ndvi [observation ''ndvi'' 2002 5 (Some 0.4)] 2001 2002
     = Inl (EEError ''Image.rename: The number of names must match the number of bands'')
   \<and> int_yearly_climate [observation ''precipitation'' 2002 1 (Some 30)] 2001 2002
     = Inl (EEError ''Image.rename: The number of names must match the number of bands'')"
  by (simp add: integration_defs upto_2001_2002)

text \<open>
  C10. The claim: the class difference is forced to 0 only when the two means differ by
  at most a small epsilon, small against the differences the index can show. In the code
  the epsilon is 100, while the index is scaled to about one unit: a baseline mean of 0.2
  in decile class 2 and a target mean of 0.8 in decile class 8 differ by 6 classes, and
  the difference is still forced to 0, so the state is stable (2).
\<close>

theorem classes_change_forced_to_zero:
  "percentile_classes pm (Some 0.2) (\<lambda>k. Some (real k / 100)) = Some 2
   \<and> percentile_classes pm (Some 0.8) (\<lambda>k. Some (real k / 100)) = Some 8
   \<and> classes_change pm (Some 0.2) (Some 0.8) (\<lambda>k. Some (real k / 100)) = Some 0
   \<and> degredation pm (classes_change pm (Some 0.2) (Some 0.8) (\<lambda>k. Some (real k / 100))) = Some 2"
  by (simp add: percentile_classes_def classes_change_def degredation_def px_defs Let_def)

end
